theory Spec2Isabelle
  imports Complex_Main "HOL-Library.AList" "HOL-Library.Sublist"
begin

section \<open>Python values, exceptions and the library the service calls\<close>

text \<open>
  The module \<^verbatim>\<open>backend/app/services/gemini_service.py\<close> defines one class,
  \<^verbatim>\<open>GeminiService\<close>, whose methods send a prompt to an external model and turn
  the text that comes back into a Python value with \<^verbatim>\<open>json.loads\<close>.

  A Python exception is its class name and its message (\<^verbatim>\<open>str(e)\<close>). Every
  exception below is a subclass of \<^verbatim>\<open>Exception\<close>, which is what the
  \<^verbatim>\<open>except Exception\<close> clauses of the module catch. Implicit exception
  chaining (\<^verbatim>\<open>__context__\<close>) is not part of the model.
\<close>

datatype py_exception = PyExc (exc_class: string) (exc_msg: string)

text \<open>
  The values \<^verbatim>\<open>json.loads\<close> can return: \<^verbatim>\<open>None\<close>, booleans, integers,
  floats, strings, lists and dictionaries with string keys. A dictionary is an
  association list in insertion order. The type \<open>'f\<close> is the type of floats.
  Strings are Isabelle strings: texts over the code points below 256.
\<close>

datatype 'f py_value =
    PNone
  | PBool bool
  | PInt int
  | PFloat 'f
  | PStr string
  | PList "'f py_value list"
  | PDict "(string \<times> 'f py_value) list"

text \<open>A decoded \<^verbatim>\<open>PIL.Image\<close>: its mode and its size in pixels.\<close>

record pil_image =
  mode :: string
  width :: nat
  height :: nat

text \<open>
  The functions of the standard library and of Pillow whose code is not part of the
  repository are parameters of the model: \<^verbatim>\<open>json.loads\<close>, the builtin
  \<^verbatim>\<open>float\<close>, the literal \<^verbatim>\<open>0.0\<close>, \<^verbatim>\<open>Image.open\<close> on a byte buffer and
  the JPEG encoder behind \<^verbatim>\<open>img.save(buf, format='JPEG')\<close>. Every theorem about
  the service holds for whatever these functions compute.
\<close>

record 'f py_lib =
  json_loads :: "string \<Rightarrow> py_exception + 'f py_value"
  py_float :: "'f py_value \<Rightarrow> py_exception + 'f"
  zero_float :: 'f
  image_open :: "string \<Rightarrow> py_exception + pil_image"
  save_jpeg :: "pil_image \<Rightarrow> string"

section \<open>String operations\<close>

text \<open>\<^verbatim>\<open>str.isspace\<close> on the code points below 256.\<close>

definition isspace :: "char \<Rightarrow> bool" where
  "isspace c = (c \<in> set [CHR 0x09, CHR 0x0A, CHR 0x0B, CHR 0x0C, CHR 0x0D,
                         CHR 0x1C, CHR 0x1D, CHR 0x1E, CHR 0x1F, CHR 0x20,
                         CHR 0x85, CHR 0xA0])"

text \<open>\<^verbatim>\<open>s.strip()\<close>: leading and trailing whitespace removed.\<close>

definition strip :: "string \<Rightarrow> string" where
  "strip s = rev (dropWhile isspace (rev (dropWhile isspace s)))"

text \<open>
  \<^verbatim>\<open>s.replace(old, new)\<close> for a non-empty \<open>old\<close>: the occurrences of
  \<open>old\<close> are found from left to right without overlap, and each is replaced.
\<close>

function replace_from :: "string \<Rightarrow> string \<Rightarrow> string \<Rightarrow> string" where
  "replace_from old new [] = []"
| "replace_from old new (c # cs) =
     (if old \<noteq> [] \<and> take (length old) (c # cs) = old
      then new @ replace_from old new (drop (length old) (c # cs))
      else c # replace_from old new cs)"
  by pat_completeness auto
termination
  by (relation "measure (\<lambda>(old, new, s). length s)") (auto simp: neq_Nil_conv)

text \<open>With an empty \<open>old\<close>, Python puts \<open>new\<close> before every character and at the end.\<close>

definition replace :: "string \<Rightarrow> string \<Rightarrow> string \<Rightarrow> string" where
  "replace old new s =
     (if old = [] then new @ concat (map (\<lambda>c. c # new) s) else replace_from old new s)"

text \<open>
  The expression \<^verbatim>\<open>.replace('```json', '').replace('```', '')\<close>, which every
  parsing method applies to the response text.
\<close>

definition remove_fences :: "string \<Rightarrow> string" where
  "remove_fences s = replace ''```'' '''' (replace ''```json'' '''' s)"

text \<open>
  \<^verbatim>\<open>re.search(r"\{[\s\S]*\}", s)\<close> and \<^verbatim>\<open>group(0)\<close> of the match. The match
  starts at the first opening brace; the starred class is greedy and matches every
  character, so the match ends at the last closing brace after that brace. There is
  no match when no closing brace follows the first opening brace.
\<close>

definition re_search_braces :: "string \<Rightarrow> string option" where
  "re_search_braces s =
     (case dropWhile (\<lambda>c. c \<noteq> CHR ''{'') s of
        [] \<Rightarrow> None
      | b # after \<Rightarrow>
          (case rev (dropWhile (\<lambda>c. c \<noteq> CHR ''}'') (rev after)) of
             [] \<Rightarrow> None
           | inner \<Rightarrow> Some (b # inner)))"

section \<open>Operations on parsed values\<close>

text \<open>The class name Python prints in its type errors.\<close>

fun type_name :: "'f py_value \<Rightarrow> string" where
  "type_name PNone = ''NoneType''"
| "type_name (PBool _) = ''bool''"
| "type_name (PInt _) = ''int''"
| "type_name (PFloat _) = ''float''"
| "type_name (PStr _) = ''str''"
| "type_name (PList _) = ''list''"
| "type_name (PDict _) = ''dict''"

text \<open>
  \<^verbatim>\<open>key in result\<close> for a string \<open>key\<close>: key membership for a dictionary,
  element membership for a list, substring test for a string, and a
  \<^verbatim>\<open>TypeError\<close> for a value that is not a container.
\<close>

fun py_contains :: "string \<Rightarrow> 'f py_value \<Rightarrow> py_exception + bool" where
  "py_contains k (PDict kvs) = Inr (k \<in> set (map fst kvs))"
| "py_contains k (PList xs) = Inr (PStr k \<in> set xs)"
| "py_contains k (PStr s) = Inr (sublist k s)"
| "py_contains k v =
     Inl (PyExc ''TypeError'' (''argument of type '' @ type_name v @ '' is not iterable''))"

text \<open>\<^verbatim>\<open>result[key]\<close> for a string \<open>key\<close>.\<close>

fun py_getitem :: "'f py_value \<Rightarrow> string \<Rightarrow> py_exception + 'f py_value" where
  "py_getitem (PDict kvs) k =
     (case map_of kvs k of None \<Rightarrow> Inl (PyExc ''KeyError'' k) | Some v \<Rightarrow> Inr v)"
| "py_getitem (PList xs) k =
     Inl (PyExc ''TypeError'' ''list indices must be integers or slices, not str'')"
| "py_getitem (PStr s) k =
     Inl (PyExc ''TypeError'' ''string indices must be integers, not str'')"
| "py_getitem v k =
     Inl (PyExc ''TypeError'' (type_name v @ '' object is not subscriptable''))"

text \<open>
  \<^verbatim>\<open>result[key] = v\<close> for a string \<open>key\<close>. A dictionary keeps the position of
  a key it already has and appends a new one.
\<close>

fun py_setitem :: "'f py_value \<Rightarrow> string \<Rightarrow> 'f py_value \<Rightarrow> py_exception + 'f py_value" where
  "py_setitem (PDict kvs) k v = Inr (PDict (AList.update k v kvs))"
| "py_setitem (PList xs) k v =
     Inl (PyExc ''TypeError'' ''list indices must be integers or slices, not str'')"
| "py_setitem r k v =
     Inl (PyExc ''TypeError'' (type_name r @ '' object does not support item assignment''))"

text \<open>
  One round of the loop over the numeric fields in \<^verbatim>\<open>extract_trip_info\<close>:
  \<^verbatim>\<open>
  if num_field in result:
      try:
          result[num_field] = float(result[num_field]) if result[num_field] is not None else 0.0
      except Exception:
          result[num_field] = 0.0
  \<close>
  The membership test and the assignment in the handler are outside the inner
  \<^verbatim>\<open>try\<close>, so what they raise leaves the loop.
\<close>

definition coerce_assign :: "'f py_lib \<Rightarrow> 'f py_value \<Rightarrow> string \<Rightarrow> py_exception + 'f py_value" where
  "coerce_assign lib result num_field =
     (case py_getitem result num_field of
        Inl e \<Rightarrow> Inl e
      | Inr v \<Rightarrow>
          if v \<noteq> PNone
          then (case py_getitem result num_field of
                  Inl e \<Rightarrow> Inl e
                | Inr w \<Rightarrow>
                    (case py_float lib w of
                       Inl e \<Rightarrow> Inl e
                     | Inr f \<Rightarrow> py_setitem result num_field (PFloat f)))
          else py_setitem result num_field (PFloat (zero_float lib)))"

definition normalize_field :: "'f py_lib \<Rightarrow> string \<Rightarrow> 'f py_value \<Rightarrow> py_exception + 'f py_value" where
  "normalize_field lib num_field result =
     (case py_contains num_field result of
        Inl e \<Rightarrow> Inl e
      | Inr False \<Rightarrow> Inr result
      | Inr True \<Rightarrow>
          (case coerce_assign lib result num_field of
             Inr r \<Rightarrow> Inr r
           | Inl _ \<Rightarrow> py_setitem result num_field (PFloat (zero_float lib))))"

definition num_fields :: "string list" where
  "num_fields = [''earnings'', ''fuel_cost'', ''toll_cost'', ''other_expenses'']"

text \<open>The \<^verbatim>\<open>for num_field in [...]\<close> loop; an exception ends it.\<close>

fun normalize_fields :: "'f py_lib \<Rightarrow> string list \<Rightarrow> 'f py_value \<Rightarrow> py_exception + 'f py_value" where
  "normalize_fields lib [] result = Inr result"
| "normalize_fields lib (k # ks) result =
     (case normalize_field lib k result of
        Inl e \<Rightarrow> Inl e
      | Inr r \<Rightarrow> normalize_fields lib ks r)"

text \<open>\<^verbatim>\<open>json.loads(text)\<close> followed by the loop, as both parsing attempts run it.\<close>

definition loads_normalized :: "'f py_lib \<Rightarrow> string \<Rightarrow> py_exception + 'f py_value" where
  "loads_normalized lib s =
     (case json_loads lib s of
        Inl e \<Rightarrow> Inl e
      | Inr result \<Rightarrow> normalize_fields lib num_fields result)"

text \<open>The dictionary \<^verbatim>\<open>extract_trip_info\<close> returns when nothing could be parsed.\<close>

definition default_trip :: "'f py_lib \<Rightarrow> 'f py_value" where
  "default_trip lib = PDict
     [(''start_location'', PNone),
      (''end_location'', PNone),
      (''earnings'', PFloat (zero_float lib)),
      (''fuel_cost'', PFloat (zero_float lib)),
      (''toll_cost'', PFloat (zero_float lib)),
      (''other_expenses'', PFloat (zero_float lib)),
      (''platform'', PNone),
      (''trip_type'', PStr ''ride_hailing''),
      (''notes'', PStr '''')]"

section \<open>The external model\<close>

text \<open>
  A request is a list of parts: text, or binary data with its MIME type. The
  external model is the environment: \<open>respond svc n\<close> is what the \<open>n\<close>-th call
  of \<^verbatim>\<open>generate_content\<close> together with the read of \<^verbatim>\<open>response.text\<close> gives,
  the text or the exception raised. \<open>requests svc\<close> is the list of requests made
  so far, so that a call is visible in the state.
\<close>

datatype part = Text string | Blob (mime_type: string) (data: string)

record service =
  respond :: "nat \<Rightarrow> py_exception + string"
  requests :: "part list list"

definition generate_content :: "service \<Rightarrow> part list \<Rightarrow> (py_exception + string) \<times> service" where
  "generate_content svc content =
     (respond svc (length (requests svc)), svc\<lparr>requests := requests svc @ [content]\<rparr>)"

text \<open>\<^verbatim>\<open>raise Exception(f"<what> failed: {str(e)}")\<close>\<close>

definition failed :: "string \<Rightarrow> py_exception \<Rightarrow> py_exception" where
  "failed what e = PyExc ''Exception'' (what @ '' failed: '' @ exc_msg e)"

section \<open>Image preprocessing\<close>

text \<open>\<^verbatim>\<open>img.convert(m)\<close> changes the mode and keeps the size.\<close>

definition convert :: "pil_image \<Rightarrow> string \<Rightarrow> pil_image" where
  "convert img m = img\<lparr>mode := m\<rparr>"

text \<open>
  The size rule of Pillow's \<^verbatim>\<open>Image.thumbnail(size, resample)\<close>, which the
  service calls with \<^verbatim>\<open>(1024, 1024)\<close>:
  \<^verbatim>\<open>
  def round_aspect(number, key):
      return max(min(math.floor(number), math.ceil(number), key=key), 1)
  x, y = provided_size
  if x >= self.width and y >= self.height:
      return
  aspect = self.width / self.height
  if x / y >= aspect:
      x = round_aspect(y * aspect, key=lambda n: abs(aspect - n / y))
  else:
      y = round_aspect(x / aspect, key=lambda n: 0 if n == 0 else abs(aspect - x / n))
  \<close>
  and the image is then resized to \<^verbatim>\<open>(x, y)\<close>. Pillow computes the quotients in
  binary floating point; the model computes them exactly, in the rationals. The
  JPEG draft mode, which may shrink a JPEG input before this rule runs, is not
  modelled.
\<close>

definition round_aspect :: "rat \<Rightarrow> (int \<Rightarrow> rat) \<Rightarrow> int" where
  "round_aspect number key =
     max (if key \<lfloor>number\<rfloor> \<le> key \<lceil>number\<rceil> then \<lfloor>number\<rfloor> else \<lceil>number\<rceil>) 1"

definition thumbnail :: "pil_image \<Rightarrow> nat \<times> nat \<Rightarrow> py_exception + pil_image" where
  "thumbnail img sz =
     (case sz of (x, y) \<Rightarrow>
        if width img \<le> x \<and> height img \<le> y then Inr img
        else if height img = 0 \<or> y = 0
        then Inl (PyExc ''ZeroDivisionError'' ''division by zero'')
        else
          let aspect = rat_of_nat (width img) / rat_of_nat (height img) in
          if aspect \<le> rat_of_nat x / rat_of_nat y
          then Inr (img\<lparr>width := nat (round_aspect (rat_of_nat y * aspect)
                                     (\<lambda>n. \<bar>aspect - rat_of_int n / rat_of_nat y\<bar>)),
                        height := y\<rparr>)
          else Inr (img\<lparr>width := x,
                        height := nat (round_aspect (rat_of_nat x / aspect)
                                     (\<lambda>n. if n = 0 then 0
                                          else \<bar>aspect - rat_of_nat x / rat_of_int n\<bar>))\<rparr>))"

text \<open>
  The body of the loop over the images in \<^verbatim>\<open>analyze_vehicle_images\<close>, between
  \<^verbatim>\<open>Image.open\<close> and \<^verbatim>\<open>img.save\<close>:
  \<^verbatim>\<open>
  if img.mode != 'RGB':
      img = img.convert('RGB')
  max_size = 1024
  if max(img.size) > max_size:
      img.thumbnail((max_size, max_size), Image.Resampling.LANCZOS)
  \<close>
\<close>

definition max_size :: nat where
  "max_size = 1024"

definition preprocess_image :: "pil_image \<Rightarrow> py_exception + pil_image" where
  "preprocess_image img0 =
     (let img = (if mode img0 \<noteq> ''RGB'' then convert img0 ''RGB'' else img0)
      in if max (width img) (height img) > max_size
         then thumbnail img (max_size, max_size)
         else Inr img)"

text \<open>One image: opened, preprocessed, saved as JPEG and wrapped as a request part.\<close>

definition image_part :: "'f py_lib \<Rightarrow> string \<Rightarrow> py_exception + part" where
  "image_part lib img_bytes =
     (case image_open lib img_bytes of
        Inl e \<Rightarrow> Inl e
      | Inr img0 \<Rightarrow>
          (case preprocess_image img0 of
             Inl e \<Rightarrow> Inl e
           | Inr img \<Rightarrow> Inr (Blob ''image/jpeg'' (save_jpeg lib img))))"

fun image_parts :: "'f py_lib \<Rightarrow> string list \<Rightarrow> py_exception + part list" where
  "image_parts lib [] = Inr []"
| "image_parts lib (img_bytes # rest) =
     (case image_part lib img_bytes of
        Inl e \<Rightarrow> Inl e
      | Inr p \<Rightarrow>
          (case image_parts lib rest of
             Inl e \<Rightarrow> Inl e
           | Inr ps \<Rightarrow> Inr (p # ps)))"

section \<open>The methods of the service\<close>

text \<open>
  The instruction texts are long literals; the model keeps how each begins and
  where the arguments are inserted, since nothing below depends on their wording.
  Arguments that the source formats into a prompt (\<^verbatim>\<open>trip_history\<close>,
  \<^verbatim>\<open>user_context\<close>, \<^verbatim>\<open>work_pattern\<close>, \<^verbatim>\<open>user_profile\<close>, \<^verbatim>\<open>goals\<close>,
  \<^verbatim>\<open>current_finances\<close>) are given as the text they format to.
\<close>

definition transcribe_prompt :: string where
  "transcribe_prompt = ''Transcribe this audio message. [...]''"

definition vehicle_prompt :: "string option \<Rightarrow> string" where
  "vehicle_prompt context =
     ''You are an expert vehicle diagnostic AI. [...]'' @
     (case context of
        None \<Rightarrow> []
      | Some c \<Rightarrow> if c = [] then [] else [CHR 0x0A, CHR 0x0A] @ ''Additional context: '' @ c)"

definition trip_prompt :: "string \<Rightarrow> string" where
  "trip_prompt transcription =
     ''Extract trip information from this transcription: '' @ [CHR 0x22] @ transcription @
     [CHR 0x22] @ '' [...]''"

definition earnings_prompt :: "string \<Rightarrow> string \<Rightarrow> string" where
  "earnings_prompt trip_history user_context =
     ''Analyze this driver's earnings pattern and provide actionable insights. [...] '' @
     trip_history @ '' [...] '' @ user_context @ '' [...]''"

definition fatigue_prompt :: "string \<Rightarrow> string" where
  "fatigue_prompt work_pattern =
     ''Analyze this work pattern to detect fatigue and burnout risk: '' @ work_pattern @ '' [...]''"

definition plan_prompt :: "string \<Rightarrow> string \<Rightarrow> string \<Rightarrow> string" where
  "plan_prompt user_profile goals current_finances =
     ''Create a personalized financial plan for this user: [...] '' @ user_profile @
     '' [...] '' @ goals @ '' [...] '' @ current_finances @ '' [...]''"

text \<open>
  \<^verbatim>\<open>transcribe_audio\<close>: one call, the text is returned as it is; any exception
  is raised again as \<^verbatim>\<open>Exception("Audio transcription failed: ...")\<close>.
\<close>

definition transcribe_audio :: "service \<Rightarrow> string \<Rightarrow> (py_exception + string) \<times> service" where
  "transcribe_audio svc audio_data =
     (case generate_content svc [Text transcribe_prompt, Blob ''audio/wav'' audio_data] of
        (Inl e, svc') \<Rightarrow> (Inl (failed ''Audio transcription'' e), svc')
      | (Inr text, svc') \<Rightarrow> (Inr text, svc'))"

text \<open>
  \<^verbatim>\<open>analyze_vehicle_images\<close>: the image parts are built first, then one call,
  then \<^verbatim>\<open>json.loads(response.text.strip().replace('```json', '').replace('```', ''))\<close>.
  The whole body is inside one \<^verbatim>\<open>try\<close>.
\<close>

definition analyze_vehicle_images ::
  "'f py_lib \<Rightarrow> service \<Rightarrow> string list \<Rightarrow> string option \<Rightarrow> (py_exception + 'f py_value) \<times> service" where
  "analyze_vehicle_images lib svc images context =
     (case image_parts lib images of
        Inl e \<Rightarrow> (Inl (failed ''Vehicle image analysis'' e), svc)
      | Inr parts \<Rightarrow>
          (case generate_content svc (Text (vehicle_prompt context) # parts) of
             (Inl e, svc') \<Rightarrow> (Inl (failed ''Vehicle image analysis'' e), svc')
           | (Inr text, svc') \<Rightarrow>
               (case json_loads lib (remove_fences (strip text)) of
                  Inl e \<Rightarrow> (Inl (failed ''Vehicle image analysis'' e), svc')
                | Inr result \<Rightarrow> (Inr result, svc'))))"

text \<open>
  \<^verbatim>\<open>extract_trip_info\<close>: the strict attempt parses the stripped text without
  its fences and normalizes the numeric fields; whatever it raises starts the
  second attempt, on the match of the brace pattern in the stripped text (fences
  kept); whatever that raises is dropped, and the default is returned.
\<close>

definition extract_trip_info ::
  "'f py_lib \<Rightarrow> service \<Rightarrow> string \<Rightarrow> (py_exception + 'f py_value) \<times> service" where
  "extract_trip_info lib svc transcription =
     (case generate_content svc [Text (trip_prompt transcription)] of
        (Inl e, svc') \<Rightarrow> (Inl (failed ''Trip info extraction'' e), svc')
      | (Inr text, svc') \<Rightarrow>
          (let response_text = strip text in
           case loads_normalized lib (remove_fences response_text) of
             Inr result \<Rightarrow> (Inr result, svc')
           | Inl _ \<Rightarrow>
               (case re_search_braces response_text of
                  None \<Rightarrow> (Inr (default_trip lib), svc')
                | Some json_match \<Rightarrow>
                    (case loads_normalized lib json_match of
                       Inr result \<Rightarrow> (Inr result, svc')
                     | Inl _ \<Rightarrow> (Inr (default_trip lib), svc')))))"

text \<open>
  \<^verbatim>\<open>analyze_earnings_pattern\<close>, \<^verbatim>\<open>detect_fatigue\<close> and
  \<^verbatim>\<open>generate_financial_plan\<close>: one call, then \<^verbatim>\<open>json.loads\<close> of the stripped
  text without its fences; any exception is raised again under the method's name.
\<close>

definition analyze_earnings_pattern ::
  "'f py_lib \<Rightarrow> service \<Rightarrow> string \<Rightarrow> string \<Rightarrow> (py_exception + 'f py_value) \<times> service" where
  "analyze_earnings_pattern lib svc trip_history user_context =
     (case generate_content svc [Text (earnings_prompt trip_history user_context)] of
        (Inl e, svc') \<Rightarrow> (Inl (failed ''Earnings pattern analysis'' e), svc')
      | (Inr text, svc') \<Rightarrow>
          (case json_loads lib (remove_fences (strip text)) of
             Inl e \<Rightarrow> (Inl (failed ''Earnings pattern analysis'' e), svc')
           | Inr result \<Rightarrow> (Inr result, svc')))"

definition detect_fatigue ::
  "'f py_lib \<Rightarrow> service \<Rightarrow> string \<Rightarrow> (py_exception + 'f py_value) \<times> service" where
  "detect_fatigue lib svc work_pattern =
     (case generate_content svc [Text (fatigue_prompt work_pattern)] of
        (Inl e, svc') \<Rightarrow> (Inl (failed ''Fatigue detection'' e), svc')
      | (Inr text, svc') \<Rightarrow>
          (case json_loads lib (remove_fences (strip text)) of
             Inl e \<Rightarrow> (Inl (failed ''Fatigue detection'' e), svc')
           | Inr result \<Rightarrow> (Inr result, svc')))"

definition generate_financial_plan ::
  "'f py_lib \<Rightarrow> service \<Rightarrow> string \<Rightarrow> string \<Rightarrow> string \<Rightarrow> (py_exception + 'f py_value) \<times> service" where
  "generate_financial_plan lib svc user_profile goals current_finances =
     (case generate_content svc [Text (plan_prompt user_profile goals current_finances)] of
        (Inl e, svc') \<Rightarrow> (Inl (failed ''Financial plan generation'' e), svc')
      | (Inr text, svc') \<Rightarrow>
          (case json_loads lib (remove_fences (strip text)) of
             Inl e \<Rightarrow> (Inl (failed ''Financial plan generation'' e), svc')
           | Inr result \<Rightarrow> (Inr result, svc')))"

section \<open>A reference library\<close>

text \<open>
  An executable instance of the library, on which the methods can be run: a
  decoder for the grammar \<^verbatim>\<open>json.loads\<close> accepts and the conversions of the
  builtin \<^verbatim>\<open>float\<close>. A float is the exact value of its literal, or one of the
  three special values; the rounding to binary64 is not modelled. An escaped
  code point above 255 has no Isabelle character and is reported as an error of
  class \<^verbatim>\<open>NotRepresentable\<close>.
\<close>

datatype pyfloat = Finite rat | PosInf | NegInf | NaN

text \<open>A decoding error: Python's message and how much of the document was left.\<close>

type_synonym scan_error = "string \<times> nat"

definition json_ws :: "char \<Rightarrow> bool" where
  "json_ws c = (c \<in> set [CHR 0x20, CHR 0x09, CHR 0x0A, CHR 0x0D])"

definition is_digit :: "char \<Rightarrow> bool" where
  "is_digit c = (48 \<le> (of_char c :: nat) \<and> (of_char c :: nat) \<le> 57)"

definition digit_val :: "char \<Rightarrow> nat" where
  "digit_val c = of_char c - 48"

definition digits_val :: "string \<Rightarrow> nat" where
  "digits_val ds = foldl (\<lambda>a c. 10 * a + digit_val c) 0 ds"

definition hex_val :: "char \<Rightarrow> nat option" where
  "hex_val c =
     (if is_digit c then Some (digit_val c)
      else if 97 \<le> (of_char c :: nat) \<and> (of_char c :: nat) \<le> 102 then Some (of_char c - 87)
      else if 65 \<le> (of_char c :: nat) \<and> (of_char c :: nat) \<le> 70 then Some (of_char c - 55)
      else None)"

text \<open>The value of \<open>sign mantissa-digits * 10 ^ e\<close>.\<close>

definition decimal :: "bool \<Rightarrow> nat \<Rightarrow> int \<Rightarrow> rat" where
  "decimal neg m e =
     (if neg then - 1 else 1) * rat_of_nat m *
     (if 0 \<le> e then 10 ^ nat e else 1 / 10 ^ nat (- e))"

text \<open>
  The number pattern of the scanner,
  \<^verbatim>\<open>(-?(?:0|[1-9][0-9]*))(\.[0-9]+)?([eE][-+]?[0-9]+)?\<close>, matched at the start of
  the text: an integer when there is neither fraction nor exponent, else a float.
\<close>

definition scan_exponent :: "string \<Rightarrow> (int \<times> string) option" where
  "scan_exponent s =
     (case s of
        [] \<Rightarrow> None
      | e # r \<Rightarrow>
          if e = CHR ''e'' \<or> e = CHR ''E''
          then (let neg = (case r of [] \<Rightarrow> False | c # _ \<Rightarrow> c = CHR ''-'');
                    r1 = (case r of [] \<Rightarrow> [] | c # t \<Rightarrow> if c = CHR ''-'' \<or> c = CHR ''+'' then t else r);
                    ds = takeWhile is_digit r1
                in if ds = [] then None
                   else Some ((if neg then - int (digits_val ds) else int (digits_val ds)),
                              dropWhile is_digit r1))
          else None)"

definition scan_fraction :: "string \<Rightarrow> (string \<times> string) option" where
  "scan_fraction s =
     (case s of
        [] \<Rightarrow> None
      | d # r \<Rightarrow>
          if d = CHR ''.'' \<and> takeWhile is_digit r \<noteq> []
          then Some (takeWhile is_digit r, dropWhile is_digit r)
          else None)"

definition scan_number :: "string \<Rightarrow> (pyfloat py_value \<times> string) option" where
  "scan_number s =
     (let neg = (case s of [] \<Rightarrow> False | c # _ \<Rightarrow> c = CHR ''-'');
          s1 = (if neg then tl s else s);
          ip = (case s1 of
                  [] \<Rightarrow> []
                | c # r \<Rightarrow> if c = CHR ''0'' then [c]
                          else if is_digit c then c # takeWhile is_digit r
                          else [])
      in if ip = [] then None
         else
           (let s2 = drop (length ip) s1;
                fr = scan_fraction s2;
                s3 = (case fr of None \<Rightarrow> s2 | Some (_, r) \<Rightarrow> r);
                ex = scan_exponent s3;
                s4 = (case ex of None \<Rightarrow> s3 | Some (_, r) \<Rightarrow> r);
                fd = (case fr of None \<Rightarrow> [] | Some (ds, _) \<Rightarrow> ds);
                e = (case ex of None \<Rightarrow> 0 | Some (n, _) \<Rightarrow> n)
            in if fr = None \<and> ex = None
               then Some (PInt (if neg then - int (digits_val ip) else int (digits_val ip)), s4)
               else Some (PFloat (Finite (decimal neg (digits_val (ip @ fd)) (e - int (length fd)))),
                          s4)))"

text \<open>The characters after a backslash that stand for one character.\<close>

definition backslash :: "char \<Rightarrow> char option" where
  "backslash c =
     (if c = CHR 0x22 then Some (CHR 0x22)
      else if c = CHR 0x5C then Some (CHR 0x5C)
      else if c = CHR ''/'' then Some (CHR ''/'')
      else if c = CHR ''b'' then Some (CHR 0x08)
      else if c = CHR ''f'' then Some (CHR 0x0C)
      else if c = CHR ''n'' then Some (CHR 0x0A)
      else if c = CHR ''r'' then Some (CHR 0x0D)
      else if c = CHR ''t'' then Some (CHR 0x09)
      else None)"

definition hex4 :: "string \<Rightarrow> nat option" where
  "hex4 s =
     (case map hex_val (take 4 s) of
        [Some a, Some b, Some c, Some d] \<Rightarrow> Some (((a * 16 + b) * 16 + c) * 16 + d)
      | _ \<Rightarrow> None)"

text \<open>
  The scan of a string after its opening quote, in strict mode: up to the closing
  quote, with escapes decoded and control characters refused. \<open>start\<close> is what
  was left of the document at the opening quote.
\<close>

fun scanstring :: "nat \<Rightarrow> string \<Rightarrow> string \<Rightarrow> scan_error + (string \<times> string)" where
  "scanstring start acc [] = Inl (''Unterminated string starting at'', start)"
| "scanstring start acc (c # cs) =
     (if c = CHR 0x22 then Inr (acc, cs)
      else if c = CHR 0x5C then
        (case cs of
           [] \<Rightarrow> Inl (''Unterminated string starting at'', start)
         | e # r \<Rightarrow>
             if e = CHR ''u'' then
               (case hex4 r of
                  None \<Rightarrow> Inl (''Invalid '' @ [CHR 0x5C] @ ''uXXXX escape'', length cs)
                | Some n \<Rightarrow>
                    if n < 256 then scanstring start (acc @ [char_of n]) (drop 4 r)
                    else Inl (''NotRepresentable'', length cs))
             else
               (case backslash e of
                  None \<Rightarrow> Inl (''Invalid '' @ [CHR 0x5C] @ ''escape: '' @ [CHR 0x27, e, CHR 0x27], length cs)
                | Some ch \<Rightarrow> scanstring start (acc @ [ch]) r))
      else if (of_char c :: nat) < 32 then Inl (''Invalid control character at'', Suc (length cs))
      else scanstring start (acc @ [c]) cs)"

definition skip_ws :: "string \<Rightarrow> string" where
  "skip_ws s = dropWhile json_ws s"

text \<open>
  The scanner. \<open>scan_once\<close> reads one value at the start of the text;
  \<open>scan_items\<close> reads the elements of an array after its opening bracket and
  \<open>scan_pairs\<close> the members of an object, both from the first element on. The
  first argument bounds the number of nested calls, as the interpreter's recursion
  limit does; the decoder starts it at twice the length of the document plus two.
\<close>

fun scan_once :: "nat \<Rightarrow> string \<Rightarrow> scan_error + (pyfloat py_value \<times> string)"
  and scan_items :: "nat \<Rightarrow> pyfloat py_value list \<Rightarrow> string \<Rightarrow> scan_error + (pyfloat py_value \<times> string)"
  and scan_pairs :: "nat \<Rightarrow> (string \<times> pyfloat py_value) list \<Rightarrow> string \<Rightarrow> scan_error + (pyfloat py_value \<times> string)"
where
  "scan_once 0 s = Inl (''RecursionError'', length s)"
| "scan_once (Suc n) s =
     (case s of
        [] \<Rightarrow> Inl (''Expecting value'', 0)
      | c # r \<Rightarrow>
          if c = CHR 0x22 then
            (case scanstring (length s) [] r of
               Inl e \<Rightarrow> Inl e
             | Inr (str, rest) \<Rightarrow> Inr (PStr str, rest))
          else if c = CHR ''{'' then
            (case skip_ws r of
               [] \<Rightarrow> Inl (''Expecting property name enclosed in double quotes'', 0)
             | d # r' \<Rightarrow>
                 if d = CHR ''}'' then Inr (PDict [], r')
                 else if d = CHR 0x22 then scan_pairs n [] (d # r')
                 else Inl (''Expecting property name enclosed in double quotes'', Suc (length r')))
          else if c = CHR ''['' then
            (case skip_ws r of
               [] \<Rightarrow> Inl (''Expecting value'', 0)
             | d # r' \<Rightarrow>
                 if d = CHR '']'' then Inr (PList [], r')
                 else scan_items n [] (d # r'))
          else if take 4 s = ''null'' then Inr (PNone, drop 4 s)
          else if take 4 s = ''true'' then Inr (PBool True, drop 4 s)
          else if take 5 s = ''false'' then Inr (PBool False, drop 5 s)
          else
            (case scan_number s of
               Some res \<Rightarrow> Inr res
             | None \<Rightarrow>
                 if take 3 s = ''NaN'' then Inr (PFloat NaN, drop 3 s)
                 else if take 8 s = ''Infinity'' then Inr (PFloat PosInf, drop 8 s)
                 else if take 9 s = ''-Infinity'' then Inr (PFloat NegInf, drop 9 s)
                 else Inl (''Expecting value'', length s)))"
| "scan_items 0 acc s = Inl (''RecursionError'', length s)"
| "scan_items (Suc n) acc s =
     (case scan_once n s of
        Inl e \<Rightarrow> Inl e
      | Inr (v, rest) \<Rightarrow>
          (case skip_ws rest of
             [] \<Rightarrow> Inl (''Expecting ',' delimiter'', 0)
           | d # r \<Rightarrow>
               if d = CHR '']'' then Inr (PList (acc @ [v]), r)
               else if d = CHR '','' then scan_items n (acc @ [v]) (skip_ws r)
               else Inl (''Expecting ',' delimiter'', Suc (length r))))"
| "scan_pairs 0 acc s = Inl (''RecursionError'', length s)"
| "scan_pairs (Suc n) acc s =
     (case s of
        [] \<Rightarrow> Inl (''Expecting property name enclosed in double quotes'', 0)
      | q # r \<Rightarrow>
          if q \<noteq> CHR 0x22
          then Inl (''Expecting property name enclosed in double quotes'', length s)
          else
            (case scanstring (length s) [] r of
               Inl e \<Rightarrow> Inl e
             | Inr (key, rest) \<Rightarrow>
                 (case skip_ws rest of
                    [] \<Rightarrow> Inl (''Expecting ':' delimiter'', 0)
                  | d # r1 \<Rightarrow>
                      if d \<noteq> CHR '':'' then Inl (''Expecting ':' delimiter'', Suc (length r1))
                      else
                        (case scan_once n (skip_ws r1) of
                           Inl e \<Rightarrow> Inl e
                         | Inr (v, rest2) \<Rightarrow>
                             (case skip_ws rest2 of
                                [] \<Rightarrow> Inl (''Expecting ',' delimiter'', 0)
                              | d2 # r2 \<Rightarrow>
                                  if d2 = CHR ''}''
                                  then Inr (PDict (AList.update key v acc), r2)
                                  else if d2 = CHR '',''
                                  then scan_pairs n (AList.update key v acc) (skip_ws r2)
                                  else Inl (''Expecting ',' delimiter'', Suc (length r2)))))))"

text \<open>Decimal digits of a natural number, for the positions in the messages.\<close>

function str_nat :: "nat \<Rightarrow> string" where
  "str_nat n =
     (if n < 10 then [char_of (48 + n)]
      else str_nat (n div 10) @ [char_of (48 + n mod 10)])"
  by pat_completeness auto
termination
  by (relation "measure (\<lambda>n. n)") auto

declare str_nat.simps [simp del]

text \<open>
  The message of a \<^verbatim>\<open>JSONDecodeError\<close> at position \<open>pos\<close> of \<open>doc\<close>:
  \<^verbatim>\<open>'%s: line %d column %d (char %d)'\<close>.
\<close>

definition errmsg :: "string \<Rightarrow> string \<Rightarrow> nat \<Rightarrow> string" where
  "errmsg msg doc pos =
     (let upto = take pos doc;
          lineno = length (filter (\<lambda>c. c = CHR 0x0A) upto) + 1;
          colno = length (takeWhile (\<lambda>c. c \<noteq> CHR 0x0A) (rev upto)) + 1
      in msg @ '': line '' @ str_nat lineno @ '' column '' @ str_nat colno @
         '' (char '' @ str_nat pos @ '')'')"

definition decode_error :: "string \<Rightarrow> scan_error \<Rightarrow> py_exception" where
  "decode_error doc e =
     (case e of (msg, left) \<Rightarrow>
        if msg = ''RecursionError'' \<or> msg = ''NotRepresentable'' then PyExc msg []
        else PyExc ''JSONDecodeError'' (errmsg msg doc (length doc - left)))"

text \<open>
  \<^verbatim>\<open>json.loads(s)\<close>: whitespace, one value, whitespace, and nothing more.
\<close>

definition loads :: "string \<Rightarrow> py_exception + pyfloat py_value" where
  "loads s =
     (case scan_once (2 * length s + 2) (skip_ws s) of
        Inl e \<Rightarrow> Inl (decode_error s e)
      | Inr (obj, rest) \<Rightarrow>
          (case skip_ws rest of
             [] \<Rightarrow> Inr obj
           | c # r \<Rightarrow> Inl (decode_error s (''Extra data'', Suc (length r)))))"

text \<open>
  \<^verbatim>\<open>float(s)\<close> for a string: surrounding whitespace is dropped, then a sign, then
  \<^verbatim>\<open>inf\<close>, \<^verbatim>\<open>infinity\<close> or \<^verbatim>\<open>nan\<close> in any case, or a decimal numeral whose
  digit groups may be separated by single underscores.
\<close>

fun digitpart :: "string \<Rightarrow> string \<times> string" where
  "digitpart [] = ([], [])"
| "digitpart [c] = (if is_digit c then ([c], []) else ([], [c]))"
| "digitpart (c # d # r) =
     (if \<not> is_digit c then ([], c # d # r)
      else if is_digit d then (case digitpart (d # r) of (ds, rest) \<Rightarrow> (c # ds, rest))
      else if d = CHR ''_'' \<and> r \<noteq> [] \<and> is_digit (hd r)
      then (case digitpart r of (ds, rest) \<Rightarrow> (c # ds, rest))
      else ([c], d # r))"

definition to_lower :: "char \<Rightarrow> char" where
  "to_lower c = (if 65 \<le> (of_char c :: nat) \<and> (of_char c :: nat) \<le> 90 then char_of (of_char c + (32::nat)) else c)"

definition float_exponent :: "string \<Rightarrow> (int \<times> string) option" where
  "float_exponent s =
     (case s of
        [] \<Rightarrow> Some (0, [])
      | e # r \<Rightarrow>
          if e = CHR ''e'' \<or> e = CHR ''E''
          then (let neg = (case r of [] \<Rightarrow> False | c # _ \<Rightarrow> c = CHR ''-'');
                    r1 = (case r of [] \<Rightarrow> [] | c # t \<Rightarrow> if c = CHR ''-'' \<or> c = CHR ''+'' then t else r)
                in case digitpart r1 of (ds, rest) \<Rightarrow>
                     if ds = [] then None
                     else Some ((if neg then - int (digits_val ds) else int (digits_val ds)), rest))
          else Some (0, s))"

definition float_of_str :: "string \<Rightarrow> pyfloat option" where
  "float_of_str s =
     (let t = strip s;
          neg = (case t of [] \<Rightarrow> False | c # _ \<Rightarrow> c = CHR ''-'');
          t1 = (case t of [] \<Rightarrow> [] | c # r \<Rightarrow> if c = CHR ''-'' \<or> c = CHR ''+'' then r else t);
          low = map to_lower t1
      in if low = ''inf'' \<or> low = ''infinity'' then Some (if neg then NegInf else PosInf)
         else if low = ''nan'' then Some NaN
         else
           (case digitpart t1 of (ip, r1) \<Rightarrow>
              (case (case r1 of
                       [] \<Rightarrow> ([], r1)
                     | d # r \<Rightarrow> if d = CHR ''.'' then digitpart r else ([], r1)) of
                 (fp, r2) \<Rightarrow>
                   if ip = [] \<and> fp = [] then None
                   else
                     (case float_exponent r2 of
                        None \<Rightarrow> None
                      | Some (e, rest) \<Rightarrow>
                          if rest \<noteq> [] then None
                          else Some (Finite (decimal neg (digits_val (ip @ fp))
                                               (e - int (length fp))))))))"

text \<open>
  The builtin \<^verbatim>\<open>float\<close> on a parsed value. An integer too large for a float
  raises \<^verbatim>\<open>OverflowError\<close>; a boolean is the integer 0 or 1; a list, a
  dictionary and \<^verbatim>\<open>None\<close> raise \<^verbatim>\<open>TypeError\<close>.
\<close>

fun float_builtin :: "pyfloat py_value \<Rightarrow> py_exception + pyfloat" where
  "float_builtin (PFloat f) = Inr f"
| "float_builtin (PInt n) =
     (if 2 ^ 1024 - 2 ^ 970 \<le> \<bar>n\<bar>
      then Inl (PyExc ''OverflowError'' ''int too large to convert to float'')
      else Inr (Finite (rat_of_int n)))"
| "float_builtin (PBool b) = Inr (Finite (if b then 1 else 0))"
| "float_builtin (PStr s) =
     (case float_of_str s of
        None \<Rightarrow> Inl (PyExc ''ValueError'' (''could not convert string to float: '' @ s))
      | Some f \<Rightarrow> Inr f)"
| "float_builtin v =
     Inl (PyExc ''TypeError''
            (''float() argument must be a string or a real number, not '' @ type_name v))"

text \<open>
  The reference library. It has no image decoder: \<open>image_open\<close> refuses every
  buffer, as \<^verbatim>\<open>Image.open\<close> does for bytes that are no image, and an example
  that needs an image puts a decoder in its place. \<open>save_jpeg\<close> stands in for the
  encoder by writing down what it was given.
\<close>

definition stdlib :: "pyfloat py_lib" where
  "stdlib =
     \<lparr>json_loads = loads,
      py_float = float_builtin,
      zero_float = Finite 0,
      image_open = (\<lambda>b. Inl (PyExc ''UnidentifiedImageError'' ''cannot identify image file'')),
      save_jpeg = (\<lambda>img. ''JPEG '' @ mode img @ '' '' @ str_nat (width img) @ ''x'' @
                          str_nat (height img))\<rparr>"

text \<open>A service whose every call returns the text \<open>t\<close>, and one whose every call fails.\<close>

definition answering :: "string \<Rightarrow> service" where
  "answering t = \<lparr>respond = (\<lambda>n. Inr t), requests = []\<rparr>"

definition failing :: "py_exception \<Rightarrow> service" where
  "failing e = \<lparr>respond = (\<lambda>n. Inl e), requests = []\<rparr>"

text \<open>The reference library with a decoder that reads every buffer as the image \<open>img\<close>.\<close>

definition stdlib_with_image :: "pil_image \<Rightarrow> pyfloat py_lib" where
  "stdlib_with_image img = stdlib\<lparr>image_open := (\<lambda>b. Inr img)\<rparr>"

text \<open>
  The float that one round of the loop stores for a field holding \<open>v\<close>:
  \<^verbatim>\<open>float(v)\<close>, or \<^verbatim>\<open>0.0\<close> when \<open>v\<close> is \<^verbatim>\<open>None\<close> or \<^verbatim>\<open>float\<close> raises.
\<close>

definition assigned_float :: "'f py_lib \<Rightarrow> 'f py_value \<Rightarrow> 'f" where
  "assigned_float lib v =
     (if v = PNone then zero_float lib
      else case py_float lib v of Inl e \<Rightarrow> zero_float lib | Inr f \<Rightarrow> f)"

section \<open>Failures\<close>

lemma respond_answering: "respond (answering t) (length (requests (answering t))) = Inr t"
  by (simp add: answering_def)

lemma respond_failing: "respond (failing e) (length (requests (failing e))) = Inl e"
  by (simp add: failing_def)

lemma zero_float_stdlib: "zero_float stdlib = Finite 0"
  by (simp add: stdlib_def)

text \<open>
  Claim C1. In \<^verbatim>\<open>extract_trip_info\<close>, when the call has returned a text, the
  strict parse of the cleaned text fails, and the brace pattern either has no match
  in the text or its match fails to parse, the method raises nothing and returns
  exactly the fixed default record: null locations and platform, the four numeric
  fields \<^verbatim>\<open>0.0\<close>, \<^verbatim>\<open>trip_type\<close> \<^verbatim>\<open>"ride_hailing"\<close> and empty notes.
\<close>

theorem trip_info_default_on_parse_failure:
  assumes "respond svc (length (requests svc)) = Inr text"
    and "isl (json_loads lib (remove_fences (strip text)))"
    and "case re_search_braces (strip text) of
           None \<Rightarrow> True
         | Some json_match \<Rightarrow> isl (json_loads lib json_match)"
  shows "fst (extract_trip_info lib svc transcription) =
         Inr (PDict
           [(''start_location'', PNone),
            (''end_location'', PNone),
            (''earnings'', PFloat (zero_float lib)),
            (''fuel_cost'', PFloat (zero_float lib)),
            (''toll_cost'', PFloat (zero_float lib)),
            (''other_expenses'', PFloat (zero_float lib)),
            (''platform'', PNone),
            (''trip_type'', PStr ''ride_hailing''),
            (''notes'', PStr '''')])"
  using assms
  by (auto simp: extract_trip_info_def generate_content_def loads_normalized_def
        default_trip_def Let_def isl_def split: option.splits sum.splits)

text \<open>
  The text \<^verbatim>\<open>I drove {somewhere} today\<close> is no JSON, and neither is the block
  between its braces.
\<close>

theorem trip_info_default_on_parse_failure_witness:
  "respond (answering ''I drove {somewhere} today'')
     (length (requests (answering ''I drove {somewhere} today''))) =
     Inr ''I drove {somewhere} today''
   \<and> isl (json_loads stdlib (remove_fences (strip ''I drove {somewhere} today'')))
   \<and> re_search_braces (strip ''I drove {somewhere} today'') = Some ''{somewhere}''
   \<and> isl (json_loads stdlib ''{somewhere}'')
   \<and> fst (extract_trip_info stdlib (answering ''I drove {somewhere} today'') ''airport run'') =
         Inr (PDict
           [(''start_location'', PNone),
            (''end_location'', PNone),
            (''earnings'', PFloat (Finite 0)),
            (''fuel_cost'', PFloat (Finite 0)),
            (''toll_cost'', PFloat (Finite 0)),
            (''other_expenses'', PFloat (Finite 0)),
            (''platform'', PNone),
            (''trip_type'', PStr ''ride_hailing''),
            (''notes'', PStr '''')])"
proof -
  let ?t = "''I drove {somewhere} today''"
  have h0: "respond (answering ?t) (length (requests (answering ?t))) = Inr ?t"
    by (rule respond_answering)
  have h1: "isl (json_loads stdlib (remove_fences (strip ?t)))"
    by code_simp
  have h2: "re_search_braces (strip ?t) = Some ''{somewhere}''"
    by code_simp
  have h3: "isl (json_loads stdlib ''{somewhere}'')"
    by code_simp
  have h4: "case re_search_braces (strip ?t) of
              None \<Rightarrow> True
            | Some json_match \<Rightarrow> isl (json_loads stdlib json_match)"
    by (simp add: h2 h3)
  note c = trip_info_default_on_parse_failure
             [OF h0 h1 h4, of "''airport run''", unfolded zero_float_stdlib]
  from h0 h1 h2 h3 c show ?thesis by blast
qed

text \<open>An example input: a 4000 by 3000 photo with an alpha channel.\<close>

lemma json_loads_with_image: "json_loads (stdlib_with_image img) = loads"
  by (simp add: stdlib_with_image_def stdlib_def)

lemma str_nat_1024: "str_nat 1024 = ''1024''"
  by code_simp

lemma str_nat_768: "str_nat 768 = ''768''"
  by code_simp

lemma preprocess_photo:
  "preprocess_image \<lparr>mode = ''RGBA'', width = 4000, height = 3000\<rparr> =
     Inr \<lparr>mode = ''RGB'', width = 1024, height = 768\<rparr>"
  by (simp add: preprocess_image_def convert_def max_size_def thumbnail_def round_aspect_def
        Let_def)

lemma image_parts_photo:
  "image_parts (stdlib_with_image \<lparr>mode = ''RGBA'', width = 4000, height = 3000\<rparr>) [b] =
     Inr [Blob ''image/jpeg'' ''JPEG RGB 1024x768'']"
  by (simp add: image_part_def stdlib_with_image_def stdlib_def preprocess_photo
        str_nat_1024 str_nat_768)

text \<open>
  Claim C5. In the four methods other than \<^verbatim>\<open>extract_trip_info\<close> that parse the
  response (vehicle image analysis, earnings pattern analysis, fatigue detection,
  financial plan generation), when the call has returned a text and
  \<^verbatim>\<open>json.loads\<close> raises \<open>e\<close> on the cleaned text, the method raises an
  \<^verbatim>\<open>Exception\<close> whose message is the name of the use case, \<^verbatim>\<open>failed:\<close> and the
  message of \<open>e\<close>. It returns no value, so no default record.
\<close>

theorem parse_failure_propagates:
  assumes "respond svc (length (requests svc)) = Inr text"
    and "json_loads lib (remove_fences (strip text)) = Inl e"
    and "image_parts lib images = Inr parts"
  shows "fst (analyze_vehicle_images lib svc images context) =
           Inl (PyExc ''Exception'' (''Vehicle image analysis failed: '' @ exc_msg e))
       \<and> fst (analyze_earnings_pattern lib svc trip_history user_context) =
           Inl (PyExc ''Exception'' (''Earnings pattern analysis failed: '' @ exc_msg e))
       \<and> fst (detect_fatigue lib svc work_pattern) =
           Inl (PyExc ''Exception'' (''Fatigue detection failed: '' @ exc_msg e))
       \<and> fst (generate_financial_plan lib svc user_profile goals current_finances) =
           Inl (PyExc ''Exception'' (''Financial plan generation failed: '' @ exc_msg e))"
  using assms
  by (simp add: analyze_vehicle_images_def analyze_earnings_pattern_def detect_fatigue_def
        generate_financial_plan_def generate_content_def failed_def)

theorem parse_failure_propagates_witness:
  "respond (answering ''Sorry, I cannot help with that.'')
     (length (requests (answering ''Sorry, I cannot help with that.''))) =
     Inr ''Sorry, I cannot help with that.''
   \<and> json_loads (stdlib_with_image \<lparr>mode = ''RGBA'', width = 4000, height = 3000\<rparr>)
       (remove_fences (strip ''Sorry, I cannot help with that.'')) =
     Inl (PyExc ''JSONDecodeError'' ''Expecting value: line 1 column 1 (char 0)'')
   \<and> image_parts (stdlib_with_image \<lparr>mode = ''RGBA'', width = 4000, height = 3000\<rparr>)
       [''photo''] = Inr [Blob ''image/jpeg'' ''JPEG RGB 1024x768'']
   \<and> fst (analyze_vehicle_images
            (stdlib_with_image \<lparr>mode = ''RGBA'', width = 4000, height = 3000\<rparr>)
            (answering ''Sorry, I cannot help with that.'') [''photo''] None) =
       Inl (PyExc ''Exception''
         ''Vehicle image analysis failed: Expecting value: line 1 column 1 (char 0)'')
   \<and> fst (analyze_earnings_pattern
            (stdlib_with_image \<lparr>mode = ''RGBA'', width = 4000, height = 3000\<rparr>)
            (answering ''Sorry, I cannot help with that.'') ''[]'' ''{}'') =
       Inl (PyExc ''Exception''
         ''Earnings pattern analysis failed: Expecting value: line 1 column 1 (char 0)'')
   \<and> fst (detect_fatigue
            (stdlib_with_image \<lparr>mode = ''RGBA'', width = 4000, height = 3000\<rparr>)
            (answering ''Sorry, I cannot help with that.'') ''{}'') =
       Inl (PyExc ''Exception''
         ''Fatigue detection failed: Expecting value: line 1 column 1 (char 0)'')
   \<and> fst (generate_financial_plan
            (stdlib_with_image \<lparr>mode = ''RGBA'', width = 4000, height = 3000\<rparr>)
            (answering ''Sorry, I cannot help with that.'') ''{}'' ''[]'' ''{}'') =
       Inl (PyExc ''Exception''
         ''Financial plan generation failed: Expecting value: line 1 column 1 (char 0)'')"
proof -
  let ?t = "''Sorry, I cannot help with that.''"
  let ?lib = "stdlib_with_image \<lparr>mode = ''RGBA'', width = 4000, height = 3000\<rparr>"
  let ?e = "PyExc ''JSONDecodeError'' ''Expecting value: line 1 column 1 (char 0)''"
  have h0: "respond (answering ?t) (length (requests (answering ?t))) = Inr ?t"
    by (rule respond_answering)
  have "loads (remove_fences (strip ?t)) = Inl ?e"
    by code_simp
  then have h1: "json_loads ?lib (remove_fences (strip ?t)) = Inl ?e"
    by (simp only: json_loads_with_image)
  have h2: "image_parts ?lib [''photo''] = Inr [Blob ''image/jpeg'' ''JPEG RGB 1024x768'']"
    by (rule image_parts_photo)
  have m: "exc_msg ?e = ''Expecting value: line 1 column 1 (char 0)''"
    by simp
  note c = parse_failure_propagates
             [OF h0 h1 h2, of None "''[]''" "''{}''" "''{}''" "''{}''" "''[]''" "''{}''"]
  have c': "fst (analyze_vehicle_images ?lib (answering ?t) [''photo''] None) =
       Inl (PyExc ''Exception''
         ''Vehicle image analysis failed: Expecting value: line 1 column 1 (char 0)'')
   \<and> fst (analyze_earnings_pattern ?lib (answering ?t) ''[]'' ''{}'') =
       Inl (PyExc ''Exception''
         ''Earnings pattern analysis failed: Expecting value: line 1 column 1 (char 0)'')
   \<and> fst (detect_fatigue ?lib (answering ?t) ''{}'') =
       Inl (PyExc ''Exception''
         ''Fatigue detection failed: Expecting value: line 1 column 1 (char 0)'')
   \<and> fst (generate_financial_plan ?lib (answering ?t) ''{}'' ''[]'' ''{}'') =
       Inl (PyExc ''Exception''
         ''Financial plan generation failed: Expecting value: line 1 column 1 (char 0)'')"
    using c by (simp only: m append.simps)
  from h0 h1 h2 c' show ?thesis by blast
qed

text \<open>
  Claim C8. In each of the six methods, when the call to the external model fails
  with \<open>e\<close>, the method raises an \<^verbatim>\<open>Exception\<close> whose message is the name of the
  use case, \<^verbatim>\<open>failed:\<close> and the message of \<open>e\<close>: one failure kind, no value
  returned. The request log grows by exactly the one request: the call is not
  repeated.
\<close>

theorem upstream_failure_propagates:
  assumes "respond svc (length (requests svc)) = Inl e"
    and "image_parts lib images = Inr parts"
  shows "transcribe_audio svc audio_data =
           (Inl (PyExc ''Exception'' (''Audio transcription failed: '' @ exc_msg e)),
            svc\<lparr>requests := requests svc @
                   [[Text transcribe_prompt, Blob ''audio/wav'' audio_data]]\<rparr>)
       \<and> analyze_vehicle_images lib svc images context =
           (Inl (PyExc ''Exception'' (''Vehicle image analysis failed: '' @ exc_msg e)),
            svc\<lparr>requests := requests svc @ [Text (vehicle_prompt context) # parts]\<rparr>)
       \<and> extract_trip_info lib svc transcription =
           (Inl (PyExc ''Exception'' (''Trip info extraction failed: '' @ exc_msg e)),
            svc\<lparr>requests := requests svc @ [[Text (trip_prompt transcription)]]\<rparr>)
       \<and> analyze_earnings_pattern lib svc trip_history user_context =
           (Inl (PyExc ''Exception'' (''Earnings pattern analysis failed: '' @ exc_msg e)),
            svc\<lparr>requests := requests svc @
                   [[Text (earnings_prompt trip_history user_context)]]\<rparr>)
       \<and> detect_fatigue lib svc work_pattern =
           (Inl (PyExc ''Exception'' (''Fatigue detection failed: '' @ exc_msg e)),
            svc\<lparr>requests := requests svc @ [[Text (fatigue_prompt work_pattern)]]\<rparr>)
       \<and> generate_financial_plan lib svc user_profile goals current_finances =
           (Inl (PyExc ''Exception'' (''Financial plan generation failed: '' @ exc_msg e)),
            svc\<lparr>requests := requests svc @
                   [[Text (plan_prompt user_profile goals current_finances)]]\<rparr>)"
  using assms
  by (simp add: transcribe_audio_def analyze_vehicle_images_def extract_trip_info_def
        analyze_earnings_pattern_def detect_fatigue_def generate_financial_plan_def
        generate_content_def failed_def)

text \<open>The model answers every call with a quota error.\<close>

theorem upstream_failure_propagates_witness:
  "respond (failing (PyExc ''ResourceExhausted'' ''429 quota exceeded''))
     (length (requests (failing (PyExc ''ResourceExhausted'' ''429 quota exceeded'')))) =
     Inl (PyExc ''ResourceExhausted'' ''429 quota exceeded'')
   \<and> image_parts (stdlib_with_image \<lparr>mode = ''RGBA'', width = 4000, height = 3000\<rparr>)
       [''photo''] = Inr [Blob ''image/jpeg'' ''JPEG RGB 1024x768'']
   \<and> fst (transcribe_audio (failing (PyExc ''ResourceExhausted'' ''429 quota exceeded''))
            ''RIFF'') =
       Inl (PyExc ''Exception'' ''Audio transcription failed: 429 quota exceeded'')
   \<and> length (requests (snd (transcribe_audio
        (failing (PyExc ''ResourceExhausted'' ''429 quota exceeded'')) ''RIFF''))) = 1
   \<and> fst (analyze_vehicle_images
            (stdlib_with_image \<lparr>mode = ''RGBA'', width = 4000, height = 3000\<rparr>)
            (failing (PyExc ''ResourceExhausted'' ''429 quota exceeded'')) [''photo''] None) =
       Inl (PyExc ''Exception'' ''Vehicle image analysis failed: 429 quota exceeded'')
   \<and> length (requests (snd (analyze_vehicle_images
        (stdlib_with_image \<lparr>mode = ''RGBA'', width = 4000, height = 3000\<rparr>)
        (failing (PyExc ''ResourceExhausted'' ''429 quota exceeded'')) [''photo''] None))) = 1
   \<and> fst (extract_trip_info
            (stdlib_with_image \<lparr>mode = ''RGBA'', width = 4000, height = 3000\<rparr>)
            (failing (PyExc ''ResourceExhausted'' ''429 quota exceeded'')) ''airport run'') =
       Inl (PyExc ''Exception'' ''Trip info extraction failed: 429 quota exceeded'')
   \<and> fst (analyze_earnings_pattern
            (stdlib_with_image \<lparr>mode = ''RGBA'', width = 4000, height = 3000\<rparr>)
            (failing (PyExc ''ResourceExhausted'' ''429 quota exceeded'')) ''[]'' ''{}'') =
       Inl (PyExc ''Exception'' ''Earnings pattern analysis failed: 429 quota exceeded'')
   \<and> fst (detect_fatigue
            (stdlib_with_image \<lparr>mode = ''RGBA'', width = 4000, height = 3000\<rparr>)
            (failing (PyExc ''ResourceExhausted'' ''429 quota exceeded'')) ''{}'') =
       Inl (PyExc ''Exception'' ''Fatigue detection failed: 429 quota exceeded'')
   \<and> fst (generate_financial_plan
            (stdlib_with_image \<lparr>mode = ''RGBA'', width = 4000, height = 3000\<rparr>)
            (failing (PyExc ''ResourceExhausted'' ''429 quota exceeded'')) ''{}'' ''[]'' ''{}'') =
       Inl (PyExc ''Exception'' ''Financial plan generation failed: 429 quota exceeded'')"
proof -
  let ?e = "PyExc ''ResourceExhausted'' ''429 quota exceeded''"
  let ?lib = "stdlib_with_image \<lparr>mode = ''RGBA'', width = 4000, height = 3000\<rparr>"
  have h0: "respond (failing ?e) (length (requests (failing ?e))) = Inl ?e"
    by (rule respond_failing)
  have h1: "image_parts ?lib [''photo''] = Inr [Blob ''image/jpeg'' ''JPEG RGB 1024x768'']"
    by (rule image_parts_photo)
  have r: "requests (failing ?e) = []"
    by (simp add: failing_def)
  note c = upstream_failure_propagates
             [OF h0 h1, of "''RIFF''" None "''airport run''" "''[]''" "''{}''" "''{}''"
                "''{}''" "''[]''" "''{}''"]
  from h0 h1 c show ?thesis by (simp add: r)
qed



section \<open>The images that are sent\<close>









section \<open>The loop over the numeric fields\<close>

text \<open>
  On a dictionary the loop raises nothing: a numeric field that is present is
  replaced by a float, in place, and nothing else changes.
\<close>

lemma normalize_field_dict:
  "normalize_field lib k (PDict kvs) =
     Inr (PDict (case map_of kvs k of
                   None \<Rightarrow> kvs
                 | Some v \<Rightarrow> AList.update k (PFloat (assigned_float lib v)) kvs))"
proof (cases "map_of kvs k")
  case None
  then have "k \<notin> set (map fst kvs)" by (simp add: map_of_eq_None_iff)
  with None show ?thesis by (simp add: normalize_field_def)
next
  case (Some v)
  then have "k \<in> set (map fst kvs)" by (metis map_of_eq_None_iff option.distinct(1) set_map)
  with Some show ?thesis
    by (simp add: normalize_field_def coerce_assign_def assigned_float_def split: sum.splits)
qed

lemma normalize_fields_dict:
  assumes "distinct ks"
  shows "\<exists>kvs'. normalize_fields lib ks (PDict kvs) = Inr (PDict kvs') \<and>
           map fst kvs' = map fst kvs \<and>
           (\<forall>k. map_of kvs' k =
              (if k \<in> set ks then map_option (\<lambda>v. PFloat (assigned_float lib v)) (map_of kvs k)
               else map_of kvs k))"
  using assms
proof (induction ks arbitrary: kvs)
  case Nil
  then show ?case by simp
next
  case (Cons k ks)
  define kvs1 where "kvs1 = (case map_of kvs k of
                   None \<Rightarrow> kvs
                 | Some v \<Rightarrow> AList.update k (PFloat (assigned_float lib v)) kvs)"
  have f: "normalize_field lib k (PDict kvs) = Inr (PDict kvs1)"
    by (simp add: normalize_field_dict kvs1_def)
  have keys1: "map fst kvs1 = map fst kvs"
  proof (cases "map_of kvs k")
    case None then show ?thesis by (simp add: kvs1_def)
  next
    case (Some v)
    then have "k \<in> set (map fst kvs)" by (metis map_of_eq_None_iff option.distinct(1) set_map)
    with Some show ?thesis by (simp add: kvs1_def update_keys)
  qed
  have look1: "map_of kvs1 j = (if j = k then map_option (\<lambda>v. PFloat (assigned_float lib v)) (map_of kvs k) else map_of kvs j)" for j
    by (cases "map_of kvs k") (simp_all add: kvs1_def update_conv')
  from Cons.prems have d: "distinct ks" and nk: "k \<notin> set ks" by simp_all
  from Cons.IH[OF d, of kvs1] obtain kvs' where
    r: "normalize_fields lib ks (PDict kvs1) = Inr (PDict kvs')"
    and keys: "map fst kvs' = map fst kvs1"
    and look: "\<forall>j. map_of kvs' j =
              (if j \<in> set ks then map_option (\<lambda>v. PFloat (assigned_float lib v)) (map_of kvs1 j)
               else map_of kvs1 j)"
    by blast
  have "normalize_fields lib (k # ks) (PDict kvs) = Inr (PDict kvs')"
    by (simp add: f r)
  moreover have "map fst kvs' = map fst kvs" by (simp add: keys keys1)
  moreover have "\<forall>j. map_of kvs' j =
              (if j \<in> set (k # ks) then map_option (\<lambda>v. PFloat (assigned_float lib v)) (map_of kvs j)
               else map_of kvs j)"
    using look look1 nk by auto
  ultimately show ?case by blast
qed

text \<open>A value that is no dictionary is returned as it is, or the loop raises.\<close>

lemma normalize_field_not_dict:
  assumes "normalize_field lib k v = Inr r" and "\<forall>kvs. v \<noteq> PDict kvs"
  shows "r = v"
  using assms
  by (cases v)
     (auto simp: normalize_field_def coerce_assign_def split: sum.splits bool.splits if_splits)

lemma normalize_fields_not_dict:
  assumes "normalize_fields lib ks v = Inr r" and "\<forall>kvs. v \<noteq> PDict kvs"
  shows "r = v"
  using assms
proof (induction ks arbitrary: v)
  case Nil
  then show ?case by simp
next
  case (Cons k ks)
  from Cons.prems(1) obtain r1 where
    a: "normalize_field lib k v = Inr r1" and b: "normalize_fields lib ks r1 = Inr r"
    by (auto split: sum.splits)
  from normalize_field_not_dict[OF a Cons.prems(2)] have "r1 = v" .
  with b Cons.IH Cons.prems(2) show ?case by blast
qed

lemma normalize_fields_list:
  assumes "\<forall>k\<in>set ks. PStr k \<notin> set xs"
  shows "normalize_fields lib ks (PList xs) = Inr (PList xs)"
  using assms by (induction ks) (simp_all add: normalize_field_def)

lemma normalize_fields_scalar:
  assumes "v = PNone \<or> (\<exists>b. v = PBool b) \<or> (\<exists>n. v = PInt n) \<or> (\<exists>f. v = PFloat f)"
    and "ks \<noteq> []"
  shows "isl (normalize_fields lib ks v)"
  using assms by (cases ks) (auto simp: normalize_field_def)

text \<open>
  A dictionary whose numeric fields are floats already is left as it is, when
  \<^verbatim>\<open>float\<close> of a float is that float.
\<close>

lemma normalize_fields_fixed:
  assumes "\<forall>f. py_float lib (PFloat f) = Inr f"
    and "\<forall>k\<in>set ks. map_of kvs k = None \<or> (\<exists>f. map_of kvs k = Some (PFloat f))"
  shows "normalize_fields lib ks (PDict kvs) = Inr (PDict kvs)"
  using assms(2)
proof (induction ks)
  case Nil
  then show ?case by simp
next
  case (Cons k ks)
  from Cons.prems have "map_of kvs k = None \<or> (\<exists>f. map_of kvs k = Some (PFloat f))"
    by simp
  then have "normalize_field lib k (PDict kvs) = Inr (PDict kvs)"
  proof
    assume "map_of kvs k = None"
    then show ?thesis by (simp add: normalize_field_dict)
  next
    assume "\<exists>f. map_of kvs k = Some (PFloat f)"
    then obtain f where f: "map_of kvs k = Some (PFloat f)" by blast
    have "assigned_float lib (PFloat f) = f"
      using assms(1) by (simp add: assigned_float_def)
    with f show ?thesis by (simp add: normalize_field_dict update_triv)
  qed
  with Cons show ?case by simp
qed

lemma normalize_fields_idem:
  assumes "\<forall>f. py_float lib (PFloat f) = Inr f"
    and "distinct ks"
    and "normalize_fields lib ks v = Inr r"
  shows "normalize_fields lib ks r = Inr r"
proof (cases "\<exists>kvs. v = PDict kvs")
  case True
  then obtain kvs where v: "v = PDict kvs" by blast
  from normalize_fields_dict[OF assms(2), of lib kvs] obtain kvs' where
    n: "normalize_fields lib ks (PDict kvs) = Inr (PDict kvs')"
    and look: "\<forall>k. map_of kvs' k =
              (if k \<in> set ks then map_option (\<lambda>v. PFloat (assigned_float lib v)) (map_of kvs k)
               else map_of kvs k)"
    by blast
  from n v assms(3) have r: "r = PDict kvs'" by simp
  have "\<forall>k\<in>set ks. map_of kvs' k = None \<or> (\<exists>f. map_of kvs' k = Some (PFloat f))"
  proof
    fix k assume "k \<in> set ks"
    with look have "map_of kvs' k = map_option (\<lambda>v. PFloat (assigned_float lib v)) (map_of kvs k)"
      by simp
    then show "map_of kvs' k = None \<or> (\<exists>f. map_of kvs' k = Some (PFloat f))"
      by (cases "map_of kvs k") auto
  qed
  from normalize_fields_fixed[OF assms(1) this] r show ?thesis by simp
next
  case False
  with normalize_fields_not_dict[OF assms(3)] have "r = v" by blast
  with assms(3) show ?thesis by simp
qed

lemma normalize_default_trip:
  assumes "\<forall>f. py_float lib (PFloat f) = Inr f"
  shows "normalize_fields lib num_fields (default_trip lib) = Inr (default_trip lib)"
  unfolding default_trip_def
  by (rule normalize_fields_fixed[OF assms]) (simp add: num_fields_def)

lemma distinct_num_fields: "distinct num_fields"
  by (simp add: num_fields_def)

end
